theory Spec2Isabelle
  imports Main
begin

section \<open>Card manager of bga-cards: data model\<close>

text \<open>
  The development embeds \<^verbatim>\<open>src/card-manager.ts\<close> (class \<^verbatim>\<open>CardManager\<close>).
  A card is a caller-defined object; the manager reads two of its fields through
  \<^verbatim>\<open>(card as any).id\<close> and \<^verbatim>\<open>(card as any).type\<close>, so both are untyped
  JavaScript values here. A field that is absent reads as \<open>JUndefined\<close>.
  Numbers are integers (card ids and card types are); their decimal rendering is the one
  JavaScript uses for integers below \<open>10^21\<close> in magnitude.
\<close>

datatype jsval = JUndefined | JNull | JBool bool | JNum int | JStr string

record card =
  card_id :: jsval
  card_type :: jsval

fun string_of_nat :: "nat \<Rightarrow> string" where
  "string_of_nat n =
     (if n < 10 then [''0123456789'' ! n]
      else string_of_nat (n div 10) @ [''0123456789'' ! (n mod 10)])"

declare string_of_nat.simps [simp del]

definition string_of_int :: "int \<Rightarrow> string" where
  "string_of_int i = (if i < 0 then CHR ''-'' # string_of_nat (nat (- i)) else string_of_nat (nat i))"

text \<open>The conversion a template literal \<^verbatim>\<open>`${v}`\<close> applies to \<open>v\<close>.\<close>

fun to_string :: "jsval \<Rightarrow> string" where
  "to_string JUndefined = ''undefined''"
| "to_string JNull = ''null''"
| "to_string (JBool b) = (if b then ''true'' else ''false'')"
| "to_string (JNum i) = string_of_int i"
| "to_string (JStr s) = s"

text \<open>JavaScript truthiness, as used by \<^verbatim>\<open>c ? a : b\<close> and \<^verbatim>\<open>!c\<close>.\<close>

fun truthy :: "jsval \<Rightarrow> bool" where
  "truthy JUndefined = False"
| "truthy JNull = False"
| "truthy (JBool b) = b"
| "truthy (JNum i) = (i \<noteq> 0)"
| "truthy (JStr s) = (s \<noteq> [])"

text \<open>The nullish coalescing operator \<^verbatim>\<open>a ?? b\<close> on untyped values.\<close>

fun nullish :: "jsval \<Rightarrow> jsval \<Rightarrow> jsval" where
  "nullish JUndefined d = d"
| "nullish JNull d = d"
| "nullish v d = v"

text \<open>\<^verbatim>\<open>a ?? b\<close> where \<open>a\<close> is an optional setting of a declared type.\<close>

definition orElse :: "'a option \<Rightarrow> 'a \<Rightarrow> 'a" where
  "orElse a d = (case a of None \<Rightarrow> d | Some v \<Rightarrow> v)"


section \<open>Document, stocks and the observable world\<close>

text \<open>
  Elements and stocks are mutable objects that several parties hold references to (a
  pending timer keeps the element it will refresh, the manager keeps every registered
  stock), so both live in stores addressed by references. An element here is a card
  container \<^verbatim>\<open>div\<close> together with its two face \<^verbatim>\<open>div\<close>s; the document is the list
  of the card containers attached to it, in document order. The ids of the face
  \<^verbatim>\<open>div\<close>s (\<^verbatim>\<open>id-front\<close>, \<^verbatim>\<open>id-back\<close>) are not lookup targets of the model.

  What a population hook writes on the \<^verbatim>\<open>div\<close> it receives is a string; a hook may read
  the whole world (a JavaScript callback can consult \<^verbatim>\<open>document\<close>) and writes only the
  \<^verbatim>\<open>div\<close> it is given, which is the purpose the settings document for it. A hook
  returns normally.

  The field \<open>events\<close> is the trace of the effects in program order: creating an element,
  setting its id or its rendered side, attaching and detaching it, calling a hook,
  registering a timer and calling into a stock each append one event.
\<close>

type_synonym ref = nat
type_synonym sref = nat

record element =
  el_id :: string
  side :: "string option"
  classList :: "string list"
  div_content :: string
  front_content :: string
  back_content :: string

datatype part = Container | Front | Back

datatype task = FrontTask card ref | BackTask card ref

datatype event =
    EvCreateElement ref
  | EvSetId ref string
  | EvSetSide ref string
  | EvAppendChild ref
  | EvRemoveChild ref
  | EvRemove ref
  | EvHook part card ref
  | EvSetTimeout int task
  | EvCardRemoved sref card
  | EvSplice sref nat card

record stock =
  cards :: "card list"
  selectedCards :: "card list"

record world =
  heap :: "ref \<Rightarrow> element"
  doc :: "ref list"
  next_ref :: ref
  timers :: "(int \<times> task) list"
  stocks :: "sref list"
  stock_store :: "sref \<Rightarrow> stock"
  events :: "event list"

type_synonym hook = "card \<Rightarrow> world \<Rightarrow> ref \<Rightarrow> string \<Rightarrow> string"

record cm_settings =
  cfg_getId :: "(card \<Rightarrow> string) option"
  cfg_setupDiv :: "hook option"
  cfg_setupFrontDiv :: "hook option"
  cfg_setupBackDiv :: "hook option"
  cfg_isCardVisible :: "(card \<Rightarrow> bool) option"

record flip_card_settings =
  updateData :: "bool option"
  updateFront :: "bool option"
  updateBack :: "bool option"
  updateFrontDelay :: "int option"
  updateBackDelay :: "int option"

datatype error = DuplicateCard card | TypeError | NotFoundError

subsection \<open>DOM primitives\<close>

definition emit :: "event \<Rightarrow> world \<Rightarrow> world" where
  "emit e w = w\<lparr>events := events w @ [e]\<rparr>"

definition blank_element :: element where
  "blank_element = \<lparr>el_id = [], side = None, classList = [], div_content = [],
                     front_content = [], back_content = []\<rparr>"

definition createElement :: "world \<Rightarrow> ref \<times> world" where
  "createElement w =
     (let r = next_ref w
      in (r, emit (EvCreateElement r)
               (w\<lparr>heap := (heap w)(r := blank_element), next_ref := Suc r\<rparr>)))"

definition set_id :: "ref \<Rightarrow> string \<Rightarrow> world \<Rightarrow> world" where
  "set_id r s w = emit (EvSetId r s) (w\<lparr>heap := (heap w)(r := (heap w r)\<lparr>el_id := s\<rparr>)\<rparr>)"

definition set_side :: "ref \<Rightarrow> string \<Rightarrow> world \<Rightarrow> world" where
  "set_side r s w = emit (EvSetSide r s) (w\<lparr>heap := (heap w)(r := (heap w r)\<lparr>side := Some s\<rparr>)\<rparr>)"

definition set_faces :: "ref \<Rightarrow> world \<Rightarrow> world" where
  "set_faces r w = w\<lparr>heap := (heap w)(r := (heap w r)\<lparr>front_content := [], back_content := []\<rparr>)\<rparr>"

definition add_class :: "ref \<Rightarrow> string \<Rightarrow> world \<Rightarrow> world" where
  "add_class r c w =
     w\<lparr>heap := (heap w)(r := (heap w r)\<lparr>classList := List.insert c (classList (heap w r))\<rparr>)\<rparr>"

definition body_appendChild :: "ref \<Rightarrow> world \<Rightarrow> world" where
  "body_appendChild r w = emit (EvAppendChild r) (w\<lparr>doc := filter (\<lambda>x. x \<noteq> r) (doc w) @ [r]\<rparr>)"

definition body_removeChild :: "ref \<Rightarrow> world \<Rightarrow> error option \<times> world" where
  "body_removeChild r w =
     (if r \<in> set (doc w)
      then (None, emit (EvRemoveChild r) (w\<lparr>doc := filter (\<lambda>x. x \<noteq> r) (doc w)\<rparr>))
      else (Some NotFoundError, w))"

definition remove_el :: "ref \<Rightarrow> world \<Rightarrow> world" where
  "remove_el r w = emit (EvRemove r) (w\<lparr>doc := filter (\<lambda>x. x \<noteq> r) (doc w)\<rparr>)"

definition getElementById :: "world \<Rightarrow> string \<Rightarrow> ref option" where
  "getElementById w s = find (\<lambda>r. el_id (heap w r) = s) (doc w)"

definition isConnected :: "world \<Rightarrow> ref \<Rightarrow> bool" where
  "isConnected w r = (r \<in> set (doc w))"

definition setTimeout :: "task \<Rightarrow> int \<Rightarrow> world \<Rightarrow> world" where
  "setTimeout t d w = emit (EvSetTimeout d t) (w\<lparr>timers := timers w @ [(d, t)]\<rparr>)"

fun part_content :: "part \<Rightarrow> element \<Rightarrow> string" where
  "part_content Container e = div_content e"
| "part_content Front e = front_content e"
| "part_content Back e = back_content e"

fun set_part_content :: "part \<Rightarrow> string \<Rightarrow> element \<Rightarrow> element" where
  "set_part_content Container s e = e\<lparr>div_content := s\<rparr>"
| "set_part_content Front s e = e\<lparr>front_content := s\<rparr>"
| "set_part_content Back s e = e\<lparr>back_content := s\<rparr>"

text \<open>
  The optional call \<^verbatim>\<open>this.settings.setupXxx?.(card, div)\<close>: nothing happens when the
  hook is not supplied; otherwise the hook runs in the current world on the given part
  of the element.
\<close>

definition call_hook :: "part \<Rightarrow> hook option \<Rightarrow> card \<Rightarrow> ref \<Rightarrow> world \<Rightarrow> world" where
  "call_hook p h c r w =
     (case h of
        None \<Rightarrow> w
      | Some f \<Rightarrow>
          emit (EvHook p c r)
            (w\<lparr>heap := (heap w)(r := set_part_content p (f c w r (part_content p (heap w r))) (heap w r))\<rparr>))"


section \<open>The identity of a card\<close>

text \<open>
  \<^verbatim>\<open>CardManager.getId\<close>: the optional call \<^verbatim>\<open>this.settings.getId?.(card)\<close>, and the
  template literal \<^verbatim>\<open>`card-${card.id}`\<close> when there is no such setting.
\<close>

definition getId :: "cm_settings \<Rightarrow> card \<Rightarrow> string" where
  "getId m c = orElse (map_option (\<lambda>f. f c) (cfg_getId m)) (''card-'' @ to_string (card_id c))"

section \<open>Card stocks\<close>

text \<open>
  The class \<^verbatim>\<open>CardStock\<close> is declared in \<^verbatim>\<open>bga-cards.d.ts\<close> (fields \<^verbatim>\<open>cards\<close> and
  \<^verbatim>\<open>selectedCards\<close>); the bodies of its methods are not part of the sources. The three
  methods the manager calls are given by the specification.
\<close>

text \<open>
  Modelled from the spec: the body of \<^verbatim>\<open>CardStock.contains\<close> is missing from the sources.
  The specification: "\<^verbatim>\<open>getCards()\<close>, \<^verbatim>\<open>isEmpty()\<close>, \<^verbatim>\<open>getSelection()\<close>,
  \<^verbatim>\<open>contains(card)\<close>: pure reads over current sequence/selection set, matched by identity."
\<close>

definition contains :: "cm_settings \<Rightarrow> stock \<Rightarrow> card \<Rightarrow> bool" where
  "contains m st c = list_ex (\<lambda>x. getId m x = getId m c) (cards st)"

text \<open>
  Modelled from the spec: the body of \<^verbatim>\<open>CardStock.getCards\<close> is missing from the sources.
  The specification: a pure read over the current sequence.
\<close>

definition getCards :: "stock \<Rightarrow> card list" where
  "getCards st = cards st"

text \<open>
  Modelled from the spec: the body of \<^verbatim>\<open>CardStock.cardRemoved\<close> is missing from the
  sources. The specification: the hook is "invoked by the Card Manager [...] so the stock
  can reconcile its sequence"; the stock "must drop [the card] from its internal sequence".
  Cards are matched by identity.
\<close>

definition cardRemoved :: "cm_settings \<Rightarrow> sref \<Rightarrow> card \<Rightarrow> world \<Rightarrow> world" where
  "cardRemoved m s c w =
     emit (EvCardRemoved s c)
       (w\<lparr>stock_store := (stock_store w)
            (s := (stock_store w s)\<lparr>cards := filter (\<lambda>x. getId m x \<noteq> getId m c) (cards (stock_store w s))\<rparr>)\<rparr>)"

text \<open>\<^verbatim>\<open>Array.prototype.findIndex\<close>: the first index whose entry satisfies the predicate, else \<open>-1\<close>.\<close>

fun findIndex :: "('a \<Rightarrow> bool) \<Rightarrow> 'a list \<Rightarrow> int" where
  "findIndex P [] = - 1"
| "findIndex P (x # xs) =
     (if P x then 0 else (let i = findIndex P xs in if i = - 1 then - 1 else i + 1))"

text \<open>\<^verbatim>\<open>xs.splice(i, 1, x)\<close> for an index \<open>i \<ge> 0\<close>: beyond the end it appends.\<close>

definition splice1 :: "nat \<Rightarrow> 'a \<Rightarrow> 'a list \<Rightarrow> 'a list" where
  "splice1 i x xs = take i xs @ [x] @ drop (Suc i) xs"

section \<open>The card manager\<close>

text \<open>
  The manager's settings never change after construction and are the parameter \<open>m\<close> of
  every operation; its private list \<^verbatim>\<open>stocks\<close> is the field \<open>stocks\<close> of the world.
  An operation returns the world it leaves behind also when it throws: what it did before
  the exception stays done.
\<close>

definition addStock :: "sref \<Rightarrow> world \<Rightarrow> world" where
  "addStock s w = w\<lparr>stocks := stocks w @ [s]\<rparr>"

definition getCardElement :: "cm_settings \<Rightarrow> card \<Rightarrow> world \<Rightarrow> ref option" where
  "getCardElement m c w = getElementById w (getId m c)"

definition createCardElement ::
  "cm_settings \<Rightarrow> card \<Rightarrow> bool option \<Rightarrow> world \<Rightarrow> (error + ref) \<times> world" where
  "createCardElement m c visible w =
     (let ident = getId m c;
          sd = (if orElse visible True then ''front'' else ''back'')
      in case getCardElement m c w of
           Some _ \<Rightarrow> (Inl (DuplicateCard c), w)
         | None \<Rightarrow>
             (let (r, w1) = createElement w;
                  w2 = set_id r ident w1;
                  w3 = set_side r sd w2;
                  w4 = set_faces r w3;
                  w5 = add_class r ''card'' w4;
                  w6 = body_appendChild r w5;
                  w7 = call_hook Container (cfg_setupDiv m) c r w6;
                  w8 = call_hook Front (cfg_setupFrontDiv m) c r w7;
                  w9 = call_hook Back (cfg_setupBackDiv m) c r w8
              in case body_removeChild r w9 of
                   (Some e, w10) \<Rightarrow> (Inl e, w10)
                 | (None, w10) \<Rightarrow> (Inr r, w10)))"

definition getCardStock :: "cm_settings \<Rightarrow> card \<Rightarrow> world \<Rightarrow> sref option" where
  "getCardStock m c w = find (\<lambda>s. contains m (stock_store w s) c) (stocks w)"

definition removeCard :: "cm_settings \<Rightarrow> card \<Rightarrow> world \<Rightarrow> world" where
  "removeCard m c w =
     (let ident = getId m c
      in case getElementById w ident of
           None \<Rightarrow> w
         | Some r \<Rightarrow>
             (let w1 = (case getCardStock m c w of None \<Rightarrow> w | Some s \<Rightarrow> cardRemoved m s c w);
                  w2 = set_id r (''deleted'' @ ident) w1
              in remove_el r w2))"

definition isCardVisible :: "cm_settings \<Rightarrow> card \<Rightarrow> jsval" where
  "isCardVisible m c =
     (case map_option (\<lambda>f. f c) (cfg_isCardVisible m) of
        Some b \<Rightarrow> JBool b
      | None \<Rightarrow> nullish (card_type c) (JBool False))"

text \<open>\<^verbatim>\<open>settings?.field ?? d\<close> for the optional argument \<^verbatim>\<open>settings\<close>.\<close>

definition flip_opt :: "flip_card_settings option \<Rightarrow> (flip_card_settings \<Rightarrow> 'a option) \<Rightarrow> 'a \<Rightarrow> 'a" where
  "flip_opt settings field d = orElse (Option.bind settings field) d"

definition setCardVisible ::
  "cm_settings \<Rightarrow> card \<Rightarrow> bool option \<Rightarrow> flip_card_settings option \<Rightarrow> world \<Rightarrow> error option \<times> world" where
  "setCardVisible m c visible settings w =
     (case getCardElement m c w of
        None \<Rightarrow> (None, w)
      | Some r \<Rightarrow>
          (let isVisible = (case visible of Some b \<Rightarrow> JBool b | None \<Rightarrow> isCardVisible m c);
               w1 = set_side r (if truthy isVisible then ''front'' else ''back'') w;
               w2 = (if flip_opt settings updateFront True
                     then (let updateFrontDelay = flip_opt settings updateFrontDelay 500
                           in if \<not> truthy isVisible \<and> updateFrontDelay > 0
                              then setTimeout (FrontTask c r) updateFrontDelay w1
                              else call_hook Front (cfg_setupFrontDiv m) c r w1)
                     else w1);
               w3 = (if flip_opt settings updateBack False
                     then (let updateBackDelay = flip_opt settings updateBackDelay 0
                           in if truthy isVisible \<and> updateBackDelay > 0
                              then setTimeout (BackTask c r) updateBackDelay w2
                              else call_hook Back (cfg_setupBackDiv m) c r w2)
                     else w2)
           in if flip_opt settings updateData True
              then (case getCardStock m c w3 of
                      None \<Rightarrow> (Some TypeError, w3)
                    | Some s \<Rightarrow>
                        (let cs = getCards (stock_store w3 s);
                             cardIndex = findIndex (\<lambda>x. getId m x = getId m c) cs
                         in if cardIndex \<noteq> - 1
                            then (None, emit (EvSplice s (nat cardIndex) c)
                                     (w3\<lparr>stock_store := (stock_store w3)
                                          (s := (stock_store w3 s)
                                             \<lparr>cards := splice1 (nat cardIndex) c (cards (stock_store w3 s))\<rparr>)\<rparr>))
                            else (None, w3)))
              else (None, w3)))"

definition flipCard ::
  "cm_settings \<Rightarrow> card \<Rightarrow> flip_card_settings option \<Rightarrow> world \<Rightarrow> error option \<times> world" where
  "flipCard m c settings w =
     (case getCardElement m c w of
        None \<Rightarrow> (Some TypeError, w)
      | Some r \<Rightarrow>
          (let currentlyVisible = (side (heap w r) = Some ''front'')
           in setCardVisible m c (Some (\<not> currentlyVisible)) settings w))"

definition no_flip_settings :: flip_card_settings where
  "no_flip_settings = \<lparr>updateData = None, updateFront = None, updateBack = None,
                        updateFrontDelay = None, updateBackDelay = None\<rparr>"

definition updateCardInformations ::
  "cm_settings \<Rightarrow> card \<Rightarrow> flip_card_settings option \<Rightarrow> world \<Rightarrow> error option \<times> world" where
  "updateCardInformations m c settings w =
     (let newSettings = (orElse settings no_flip_settings)\<lparr>updateData := Some True\<rparr>
      in setCardVisible m c None (Some newSettings) w)"

subsection \<open>Pending timers\<close>

text \<open>
  What the closure handed to \<^verbatim>\<open>setTimeout\<close> does when it fires: the optional call of the
  hook, on the element the closure captured, in the world of that moment.
\<close>

fun run_task :: "cm_settings \<Rightarrow> task \<Rightarrow> world \<Rightarrow> world" where
  "run_task m (FrontTask c r) w = call_hook Front (cfg_setupFrontDiv m) c r w"
| "run_task m (BackTask c r) w = call_hook Back (cfg_setupBackDiv m) c r w"

text \<open>
  Letting \<open>t\<close> time-units pass: every pending timer whose delay is at most \<open>t\<close> fires, in
  the order of the delays (registration order among equal delays); the others keep
  waiting with their delays shortened. No task of this program registers a timer.
\<close>

definition elapse :: "cm_settings \<Rightarrow> int \<Rightarrow> world \<Rightarrow> world" where
  "elapse m t w =
     (let due = sort_key fst (filter (\<lambda>(d, k). d \<le> t) (timers w));
          waiting = map (\<lambda>(d, k). (d - t, k)) (filter (\<lambda>(d, k). \<not> d \<le> t) (timers w))
      in foldl (\<lambda>v (d, k). run_task m k v) (w\<lparr>timers := waiting\<rparr>) due)"


section \<open>Intermediate worlds\<close>

text \<open>
  Names for the worlds two operations pass through; the lemmas \<open>createCardElement_fresh\<close>
  and \<open>setCardVisible_present\<close> below relate them to the operations.
\<close>

text \<open>The world in which \<open>createCardElement\<close> calls the first hook.\<close>

definition mounted :: "cm_settings \<Rightarrow> card \<Rightarrow> bool option \<Rightarrow> world \<Rightarrow> world" where
  "mounted m c visible w =
     body_appendChild (next_ref w)
       (add_class (next_ref w) ''card''
         (set_faces (next_ref w)
           (set_side (next_ref w) (if orElse visible True then ''front'' else ''back'')
             (set_id (next_ref w) (getId m c) (snd (createElement w))))))"

text \<open>The world after the three hooks, before the element is taken off the body again.\<close>

definition created :: "cm_settings \<Rightarrow> card \<Rightarrow> bool option \<Rightarrow> world \<Rightarrow> world" where
  "created m c visible w =
     call_hook Back (cfg_setupBackDiv m) c (next_ref w)
       (call_hook Front (cfg_setupFrontDiv m) c (next_ref w)
         (call_hook Container (cfg_setupDiv m) c (next_ref w) (mounted m c visible w)))"

text \<open>The world \<open>setCardVisible\<close> has reached when it turns to the card data.\<close>

definition displayed ::
  "cm_settings \<Rightarrow> card \<Rightarrow> bool option \<Rightarrow> flip_card_settings option \<Rightarrow> ref \<Rightarrow> world \<Rightarrow> world" where
  "displayed m c visible settings r w =
     (let isVisible = (case visible of Some b \<Rightarrow> JBool b | None \<Rightarrow> isCardVisible m c);
          w1 = set_side r (if truthy isVisible then ''front'' else ''back'') w;
          w2 = (if flip_opt settings updateFront True
                then (if \<not> truthy isVisible \<and> flip_opt settings updateFrontDelay 500 > 0
                      then setTimeout (FrontTask c r) (flip_opt settings updateFrontDelay 500) w1
                      else call_hook Front (cfg_setupFrontDiv m) c r w1)
                else w1)
      in (if flip_opt settings updateBack False
          then (if truthy isVisible \<and> flip_opt settings updateBackDelay 0 > 0
                then setTimeout (BackTask c r) (flip_opt settings updateBackDelay 0) w2
                else call_hook Back (cfg_setupBackDiv m) c r w2)
          else w2))"

section \<open>Concrete managers, cards and worlds\<close>

text \<open>
  A manager without settings, one whose front hook writes the card's type on the face, and
  one whose three hooks write down whether the element they receive is connected to the
  document.
\<close>

definition default_manager :: cm_settings where
  "default_manager = \<lparr>cfg_getId = None, cfg_setupDiv = None, cfg_setupFrontDiv = None,
                       cfg_setupBackDiv = None, cfg_isCardVisible = None\<rparr>"

definition painting_manager :: cm_settings where
  "painting_manager =
     default_manager\<lparr>cfg_setupFrontDiv := Some (\<lambda>c w r old. ''type:'' @ to_string (card_type c))\<rparr>"

definition probe_hook :: hook where
  "probe_hook c w r old = (if isConnected w r then ''connected'' else ''detached'')"

definition probing_manager :: cm_settings where
  "probing_manager = default_manager\<lparr>cfg_setupDiv := Some probe_hook,
      cfg_setupFrontDiv := Some probe_hook, cfg_setupBackDiv := Some probe_hook\<rparr>"

text \<open>
  The card \<^verbatim>\<open>{id: 5}\<close>, the same card once its type is known (\<^verbatim>\<open>{id: 5, type: 3}\<close>), and
  the card \<^verbatim>\<open>{id: 1, type: 3}\<close>.
\<close>

definition card5 :: card where
  "card5 = \<lparr>card_id = JNum 5, card_type = JUndefined\<rparr>"

definition revealed5 :: card where
  "revealed5 = \<lparr>card_id = JNum 5, card_type = JNum 3\<rparr>"

definition club_card :: card where
  "club_card = \<lparr>card_id = JNum 1, card_type = JNum 3\<rparr>"

text \<open>
  An empty page without stocks; the page showing the element of card 5, front up; the same
  page with one registered stock that holds card 5; a page without any element whose
  one registered stock holds card 5; and a page on which two elements carry the id
  \<^verbatim>\<open>card-5\<close>.
\<close>

definition empty_world :: world where
  "empty_world = \<lparr>heap = (\<lambda>_. blank_element), doc = [], next_ref = 0, timers = [],
                   stocks = [], stock_store = (\<lambda>_. \<lparr>cards = [], selectedCards = []\<rparr>), events = []\<rparr>"

definition shown_world :: world where
  "shown_world =
     empty_world\<lparr>heap := (heap empty_world)(0 := blank_element\<lparr>el_id := ''card-5'', side := Some ''front''\<rparr>),
                 doc := [0], next_ref := 1\<rparr>"

definition stocked_world :: world where
  "stocked_world = shown_world\<lparr>stocks := [0],
      stock_store := (stock_store shown_world)(0 := \<lparr>cards = [card5], selectedCards = []\<rparr>)\<rparr>"

definition unseen_world :: world where
  "unseen_world = empty_world\<lparr>stocks := [0],
      stock_store := (stock_store empty_world)(0 := \<lparr>cards = [card5], selectedCards = []\<rparr>)\<rparr>"

definition twin_world :: world where
  "twin_world =
     empty_world\<lparr>heap := (\<lambda>r. if r < 2 then blank_element\<lparr>el_id := ''card-5'', side := Some ''front''\<rparr>
                              else blank_element),
                 doc := [0, 1], next_ref := 2\<rparr>"

section \<open>Facts about the primitives\<close>

lemma emit_simps [simp]:
  "heap (emit e w) = heap w" "doc (emit e w) = doc w" "next_ref (emit e w) = next_ref w"
  "timers (emit e w) = timers w" "stocks (emit e w) = stocks w"
  "stock_store (emit e w) = stock_store w" "events (emit e w) = events w @ [e]"
  by (simp_all add: emit_def)

lemma set_id_simps [simp]:
  "heap (set_id r s w) = (heap w)(r := (heap w r)\<lparr>el_id := s\<rparr>)" "doc (set_id r s w) = doc w"
  "next_ref (set_id r s w) = next_ref w" "timers (set_id r s w) = timers w"
  "stocks (set_id r s w) = stocks w" "stock_store (set_id r s w) = stock_store w"
  "events (set_id r s w) = events w @ [EvSetId r s]"
  by (simp_all add: set_id_def)

lemma set_side_simps [simp]:
  "heap (set_side r s w) = (heap w)(r := (heap w r)\<lparr>side := Some s\<rparr>)" "doc (set_side r s w) = doc w"
  "next_ref (set_side r s w) = next_ref w" "timers (set_side r s w) = timers w"
  "stocks (set_side r s w) = stocks w" "stock_store (set_side r s w) = stock_store w"
  "events (set_side r s w) = events w @ [EvSetSide r s]"
  by (simp_all add: set_side_def)

lemma set_faces_simps [simp]:
  "heap (set_faces r w) = (heap w)(r := (heap w r)\<lparr>front_content := [], back_content := []\<rparr>)"
  "doc (set_faces r w) = doc w"
  "next_ref (set_faces r w) = next_ref w" "timers (set_faces r w) = timers w"
  "stocks (set_faces r w) = stocks w" "stock_store (set_faces r w) = stock_store w"
  "events (set_faces r w) = events w"
  by (simp_all add: set_faces_def)

lemma add_class_simps [simp]:
  "heap (add_class r c w) = (heap w)(r := (heap w r)\<lparr>classList := List.insert c (classList (heap w r))\<rparr>)"
  "doc (add_class r c w) = doc w"
  "next_ref (add_class r c w) = next_ref w" "timers (add_class r c w) = timers w"
  "stocks (add_class r c w) = stocks w" "stock_store (add_class r c w) = stock_store w"
  "events (add_class r c w) = events w"
  by (simp_all add: add_class_def)

lemma body_appendChild_simps [simp]:
  "heap (body_appendChild r w) = heap w" "doc (body_appendChild r w) = filter (\<lambda>x. x \<noteq> r) (doc w) @ [r]"
  "next_ref (body_appendChild r w) = next_ref w" "timers (body_appendChild r w) = timers w"
  "stocks (body_appendChild r w) = stocks w" "stock_store (body_appendChild r w) = stock_store w"
  "events (body_appendChild r w) = events w @ [EvAppendChild r]"
  by (simp_all add: body_appendChild_def)

lemma remove_el_simps [simp]:
  "heap (remove_el r w) = heap w" "doc (remove_el r w) = filter (\<lambda>x. x \<noteq> r) (doc w)"
  "next_ref (remove_el r w) = next_ref w" "timers (remove_el r w) = timers w"
  "stocks (remove_el r w) = stocks w" "stock_store (remove_el r w) = stock_store w"
  "events (remove_el r w) = events w @ [EvRemove r]"
  by (simp_all add: remove_el_def)

lemma setTimeout_simps [simp]:
  "heap (setTimeout t d w) = heap w" "doc (setTimeout t d w) = doc w"
  "next_ref (setTimeout t d w) = next_ref w" "timers (setTimeout t d w) = timers w @ [(d, t)]"
  "stocks (setTimeout t d w) = stocks w" "stock_store (setTimeout t d w) = stock_store w"
  "events (setTimeout t d w) = events w @ [EvSetTimeout d t]"
  by (simp_all add: setTimeout_def)

lemma call_hook_simps [simp]:
  "doc (call_hook p h c r w) = doc w"
  "next_ref (call_hook p h c r w) = next_ref w" "timers (call_hook p h c r w) = timers w"
  "stocks (call_hook p h c r w) = stocks w" "stock_store (call_hook p h c r w) = stock_store w"
  "events (call_hook p h c r w) = events w @ (case h of None \<Rightarrow> [] | Some f \<Rightarrow> [EvHook p c r])"
  by (simp_all add: call_hook_def split: option.splits)

lemma call_hook_frame [simp]:
  "el_id (heap (call_hook p h c r w) x) = el_id (heap w x)"
  "side (heap (call_hook p h c r w) x) = side (heap w x)"
  "classList (heap (call_hook p h c r w) x) = classList (heap w x)"
  by (cases p; simp add: call_hook_def split: option.splits)+

lemma call_hook_div_content [simp]:
  "div_content (heap (call_hook p h c r w) x) =
     (if x = r \<and> p = Container
      then (case h of None \<Rightarrow> div_content (heap w r) | Some f \<Rightarrow> f c w r (div_content (heap w r)))
      else div_content (heap w x))"
  by (cases p; simp add: call_hook_def split: option.splits)

lemma call_hook_front_content [simp]:
  "front_content (heap (call_hook p h c r w) x) =
     (if x = r \<and> p = Front
      then (case h of None \<Rightarrow> front_content (heap w r) | Some f \<Rightarrow> f c w r (front_content (heap w r)))
      else front_content (heap w x))"
  by (cases p; simp add: call_hook_def split: option.splits)

lemma call_hook_back_content [simp]:
  "back_content (heap (call_hook p h c r w) x) =
     (if x = r \<and> p = Back
      then (case h of None \<Rightarrow> back_content (heap w r) | Some f \<Rightarrow> f c w r (back_content (heap w r)))
      else back_content (heap w x))"
  by (cases p; simp add: call_hook_def split: option.splits)

lemma cardRemoved_simps [simp]:
  "heap (cardRemoved m s c w) = heap w" "doc (cardRemoved m s c w) = doc w"
  "next_ref (cardRemoved m s c w) = next_ref w" "timers (cardRemoved m s c w) = timers w"
  "stocks (cardRemoved m s c w) = stocks w"
  "stock_store (cardRemoved m s c w) = (stock_store w)
      (s := (stock_store w s)\<lparr>cards := filter (\<lambda>x. getId m x \<noteq> getId m c) (cards (stock_store w s))\<rparr>)"
  "events (cardRemoved m s c w) = events w @ [EvCardRemoved s c]"
  by (simp_all add: cardRemoved_def)

lemma createElement_simps [simp]:
  "fst (createElement w) = next_ref w"
  "heap (snd (createElement w)) = (heap w)(next_ref w := blank_element)"
  "doc (snd (createElement w)) = doc w"
  "next_ref (snd (createElement w)) = Suc (next_ref w)"
  "timers (snd (createElement w)) = timers w"
  "stocks (snd (createElement w)) = stocks w" "stock_store (snd (createElement w)) = stock_store w"
  "events (snd (createElement w)) = events w @ [EvCreateElement (next_ref w)]"
  by (simp_all add: createElement_def Let_def)

lemma body_removeChild_attached:
  "r \<in> set (doc w) \<Longrightarrow> body_removeChild r w = (None, emit (EvRemoveChild r) (w\<lparr>doc := filter (\<lambda>x. x \<noteq> r) (doc w)\<rparr>))"
  by (simp add: body_removeChild_def)

lemma getId_default: "cfg_getId m = None \<Longrightarrow> getId m c = ''card-'' @ to_string (card_id c)"
  by (simp add: getId_def orElse_def)

lemma string_of_int_5: "string_of_int 5 = ''5''"
  by (simp add: string_of_int_def string_of_nat.simps)

lemma createCardElement_fresh:
  assumes "getCardElement m c w = None"
  shows "createCardElement m c v w =
           (Inr (next_ref w),
            emit (EvRemoveChild (next_ref w))
              ((created m c v w)\<lparr>doc := filter (\<lambda>x. x \<noteq> next_ref w) (doc (created m c v w))\<rparr>))"
  using assms
  by (simp add: createCardElement_def Let_def split_beta created_def mounted_def body_removeChild_def)

lemma createCardElement_existing:
  "getCardElement m c w = Some r \<Longrightarrow> createCardElement m c v w = (Inl (DuplicateCard c), w)"
  by (simp add: createCardElement_def Let_def)

lemma getId_card5: "getId default_manager card5 = ''card-5''"
  by (simp add: getId_def default_manager_def card5_def orElse_def string_of_int_5)

lemma element_of_card5_shown: "getCardElement default_manager card5 shown_world = Some 0"
  by (simp add: getCardElement_def getElementById_def getId_card5 shown_world_def empty_world_def)

lemma element_of_card5_empty: "getCardElement default_manager card5 empty_world = None"
  by (simp add: getCardElement_def getElementById_def empty_world_def)

lemma setCardVisible_missing:
  "getCardElement m c w = None \<Longrightarrow> setCardVisible m c visible settings w = (None, w)"
  by (simp add: setCardVisible_def)

lemma flipCard_missing:
  "getCardElement m c w = None \<Longrightarrow> flipCard m c settings w = (Some TypeError, w)"
  by (simp add: flipCard_def)


section \<open>Creating an element\<close>

lemma createCardElement_keeps_identity_free:
  assumes "getCardElement m c w = None"
  shows "getCardElement m c (snd (createCardElement m c v w)) = None"
    and "next_ref (snd (createCardElement m c v w)) = Suc (next_ref w)"
    and "el_id (heap (snd (createCardElement m c v w)) (next_ref w)) = getId m c"
  using assms
  by (auto simp: createCardElement_fresh created_def mounted_def getCardElement_def
        getElementById_def find_None_iff)


text \<open>
  C1, as stated, fails: the element a first \<open>createCardElement\<close> returned carries the id
  \<^verbatim>\<open>card-5\<close> and is detached, so a second call for the same card finds nothing in the
  document and succeeds with another element, although an element with the computed id
  exists.
\<close>

theorem createCardElement_detached_twin_counterexample:
  "getId default_manager card5 = ''card-5'' \<and>
   fst (createCardElement default_manager card5 None empty_world) = Inr 0 \<and>
   el_id (heap (snd (createCardElement default_manager card5 None empty_world)) 0) = ''card-5'' \<and>
   fst (createCardElement default_manager card5 None
          (snd (createCardElement default_manager card5 None empty_world))) = Inr 1"
proof -
  have fresh: "next_ref empty_world = 0" by (simp add: empty_world_def)
  note first = createCardElement_keeps_identity_free [OF element_of_card5_empty, of None]
  have "fst (createCardElement default_manager card5 None empty_world) = Inr 0"
    by (simp add: createCardElement_fresh [OF element_of_card5_empty] fresh)
  moreover have "el_id (heap (snd (createCardElement default_manager card5 None empty_world)) 0) = ''card-5''"
    using first(3) by (simp add: fresh getId_card5)
  moreover have "fst (createCardElement default_manager card5 None
          (snd (createCardElement default_manager card5 None empty_world))) = Inr 1"
    by (simp add: createCardElement_fresh [OF first(1)] first(2) fresh)
  ultimately show ?thesis by (simp add: getId_card5)
qed

text \<open>
  C1, amended. Creating the element of a card whose identity is carried by an element
  attached to the document throws the duplicate-card error at once and leaves the world as
  it was (no element is created). When no element of the document carries the identity,
  elements outside the document notwithstanding, the call returns a newly created element.
\<close>

theorem createCardElement_duplicate_or_success:
  "(getCardElement m c w \<noteq> None \<longrightarrow> createCardElement m c v w = (Inl (DuplicateCard c), w)) \<and>
   (getCardElement m c w = None \<longrightarrow>
      (\<exists>w'. createCardElement m c v w = (Inr (next_ref w), w') \<and> next_ref w' = Suc (next_ref w)))"
  by (auto simp: createCardElement_existing createCardElement_fresh created_def mounted_def)


theorem createCardElement_duplicate_or_success_witness:
  "createCardElement default_manager card5 None shown_world = (Inl (DuplicateCard card5), shown_world) \<and>
   (\<exists>w'. createCardElement default_manager card5 None empty_world = (Inr 0, w') \<and> next_ref w' = 1)"
  using createCardElement_duplicate_or_success [of default_manager card5 shown_world None]
        createCardElement_duplicate_or_success [of default_manager card5 empty_world None]
  by (simp add: element_of_card5_shown element_of_card5_empty) (simp add: empty_world_def)


text \<open>
  C8. Without a \<^verbatim>\<open>getId\<close> setting the identity of a card is \<^verbatim>\<open>card-\<close> followed by the
  rendering of its \<^verbatim>\<open>id\<close> field: a function of that field alone. For a card whose id is
  the number 5 it is \<^verbatim>\<open>card-5\<close>, and the element \<open>createCardElement\<close> returns for it
  carries that id.
\<close>

theorem getId_default_card5:
  assumes "cfg_getId m = None"
  shows "getId m c = ''card-'' @ to_string (card_id c) \<and>
         (card_id c = JNum 5 \<longrightarrow>
            getId m c = ''card-5'' \<and>
            (\<forall>v w. getCardElement m c w = None \<longrightarrow>
               (\<exists>r w'. createCardElement m c v w = (Inr r, w') \<and> el_id (heap w' r) = ''card-5'')))"
  using assms
  by (auto simp: getId_default string_of_int_5 createCardElement_fresh created_def mounted_def)

theorem getId_default_card5_witness:
  "getId default_manager card5 = ''card-5'' \<and>
   (\<exists>r w'. createCardElement default_manager card5 None empty_world = (Inr r, w') \<and>
            el_id (heap w' r) = ''card-5'')"
  using getId_default_card5 [of default_manager card5] element_of_card5_empty
  by (simp add: default_manager_def card5_def string_of_int_5)


section \<open>Visibility\<close>

text \<open>
  C9 at the card \<^verbatim>\<open>{id: 1, type: 3}\<close> on a manager without an \<^verbatim>\<open>isCardVisible\<close> setting:
  the type field is truthy, and \<open>isCardVisible\<close>, declared to return a boolean, returns
  the number 3 (the value of the field, passed through \<^verbatim>\<open>?? false\<close>) instead of the
  boolean \<^verbatim>\<open>true\<close>.
\<close>

theorem isCardVisible_returns_type_value:
  "cfg_isCardVisible default_manager = None \<and>
   isCardVisible default_manager club_card = JNum 3 \<and>
   isCardVisible default_manager club_card \<noteq> JBool True \<and>
   truthy (card_type club_card)"
  by (simp add: isCardVisible_def default_manager_def club_card_def)


text \<open>
  C3 at the card \<^verbatim>\<open>{id: 5}\<close> on an empty page: the card has no element,
  \<open>setCardVisible\<close> returns without any effect, and \<open>flipCard\<close> throws a
  \<^verbatim>\<open>TypeError\<close> (it reads \<^verbatim>\<open>dataset\<close> of \<^verbatim>\<open>null\<close>), leaving the world as it was.
\<close>

theorem flipCard_missing_element_throws:
  "getCardElement default_manager card5 empty_world = None \<and>
   setCardVisible default_manager card5 None None empty_world = (None, empty_world) \<and>
   flipCard default_manager card5 None empty_world = (Some TypeError, empty_world)"
  by (simp add: element_of_card5_empty setCardVisible_missing flipCard_missing)

section \<open>Turning a card\<close>

lemma displayed_frame [simp]:
  "doc (displayed m c visible settings r w) = doc w"
  "next_ref (displayed m c visible settings r w) = next_ref w"
  "stocks (displayed m c visible settings r w) = stocks w"
  "stock_store (displayed m c visible settings r w) = stock_store w"
  "el_id (heap (displayed m c visible settings r w) x) = el_id (heap w x)"
  by (simp_all add: displayed_def Let_def)

lemma getCardStock_displayed [simp]:
  "getCardStock m c (displayed m c visible settings r w) = getCardStock m c w"
  by (simp add: getCardStock_def)

lemma setCardVisible_present:
  assumes "getCardElement m c w = Some r"
  shows "setCardVisible m c visible settings w =
     (let w3 = displayed m c visible settings r w
      in if flip_opt settings updateData True
         then (case getCardStock m c w of
                 None \<Rightarrow> (Some TypeError, w3)
               | Some s \<Rightarrow>
                   (let cardIndex = findIndex (\<lambda>x. getId m x = getId m c) (cards (stock_store w s))
                    in if cardIndex \<noteq> - 1
                       then (None, emit (EvSplice s (nat cardIndex) c)
                                (w3\<lparr>stock_store := (stock_store w)
                                     (s := (stock_store w s)
                                        \<lparr>cards := splice1 (nat cardIndex) c (cards (stock_store w s))\<rparr>)\<rparr>))
                       else (None, w3)))
         else (None, w3))"
proof -
  have unfolded: "setCardVisible m c visible settings w =
     (let w3 = displayed m c visible settings r w
      in if flip_opt settings updateData True
         then (case getCardStock m c w3 of
                 None \<Rightarrow> (Some TypeError, w3)
               | Some s \<Rightarrow>
                   (let cardIndex = findIndex (\<lambda>x. getId m x = getId m c) (cards (stock_store w3 s))
                    in if cardIndex \<noteq> - 1
                       then (None, emit (EvSplice s (nat cardIndex) c)
                                (w3\<lparr>stock_store := (stock_store w3)
                                     (s := (stock_store w3 s)
                                        \<lparr>cards := splice1 (nat cardIndex) c (cards (stock_store w3 s))\<rparr>)\<rparr>))
                       else (None, w3)))
         else (None, w3))"
    using assms by (simp only: setCardVisible_def displayed_def getCards_def Let_def option.case)
  show ?thesis
    unfolding unfolded Let_def by (cases "getCardStock m c w") simp_all
qed

lemma no_stock_shown: "getCardStock default_manager card5 shown_world = None"
  by (simp add: getCardStock_def shown_world_def empty_world_def)

lemma flip_opt_None [simp]: "flip_opt None field d = d"
  by (simp add: flip_opt_def orElse_def)

lemma displayed_default_down:
  "displayed m c (Some False) None r w = setTimeout (FrontTask c r) 500 (set_side r ''back'' w)"
  by (simp add: displayed_def)

lemma displayed_default_up:
  "displayed m c (Some True) None r w = call_hook Front (cfg_setupFrontDiv m) c r (set_side r ''front'' w)"
  by (simp add: displayed_def)

lemma setCardVisible_document:
  assumes "getCardElement m c w = Some r"
  shows "heap (snd (setCardVisible m c visible settings w)) = heap (displayed m c visible settings r w)"
    and "timers (snd (setCardVisible m c visible settings w)) = timers (displayed m c visible settings r w)"
    and "doc (snd (setCardVisible m c visible settings w)) = doc w"
  using assms by (simp_all add: setCardVisible_present Let_def split: option.split)

lemma displayed_back_untouched:
  assumes "\<not> flip_opt settings updateBack False"
  shows "back_content (heap (displayed m c visible settings r w) x) = back_content (heap w x)"
    and "(d, BackTask y z) \<in> set (timers (displayed m c visible settings r w)) \<longleftrightarrow> (d, BackTask y z) \<in> set (timers w)"
  using assms by (auto simp: displayed_def Let_def)

lemma elapse_single_waiting:
  "timers w = [(d, k)] \<Longrightarrow> t < d \<Longrightarrow> elapse m t w = w\<lparr>timers := [(d - t, k)]\<rparr>"
  by (simp add: elapse_def)

lemma elapse_single_due:
  "timers w = [(d, k)] \<Longrightarrow> d \<le> t \<Longrightarrow> elapse m t w = run_task m k (w\<lparr>timers := []\<rparr>)"
  by (simp add: elapse_def)

lemma element_of_card5_painting: "getCardElement painting_manager card5 shown_world = Some 0"
  by (simp add: getCardElement_def getElementById_def getId_def orElse_def painting_manager_def
        default_manager_def card5_def string_of_int_5 shown_world_def empty_world_def)

lemma shown_world_fields:
  "timers shown_world = []" "front_content (heap shown_world 0) = []"
  "back_content (heap shown_world 0) = []"
  by (simp_all add: shown_world_def empty_world_def blank_element_def)


text \<open>
  C2. For a card that has an element, \<open>setCardVisible(card, false)\<close> without options sets
  the rendered side to \<^verbatim>\<open>back\<close> at once, leaves the content of both faces as it is, and
  registers one timer of 500 time-units whose task is the call of \<^verbatim>\<open>setupFrontDiv\<close>: with
  no other timer pending, the front face is unchanged as long as fewer than 500 time-units
  have passed and is what the hook produces once 500 have passed.
  \<open>setCardVisible(card, true)\<close> without options sets the side to \<^verbatim>\<open>front\<close> and refreshes
  the front face at once, registering no timer. Whatever the arguments, as long as
  \<^verbatim>\<open>updateBack\<close> is not set to true the back face keeps its content and no timer for it
  is registered.
\<close>

theorem setCardVisible_default_options:
  assumes "getCardElement m c w = Some r"
  shows "(let w' = snd (setCardVisible m c (Some False) None w) in
            side (heap w' r) = Some ''back'' \<and>
            front_content (heap w' r) = front_content (heap w r) \<and>
            back_content (heap w' r) = back_content (heap w r) \<and>
            timers w' = timers w @ [(500, FrontTask c r)] \<and>
            (timers w = [] \<longrightarrow>
               (\<forall>t. 0 \<le> t \<and> t < 500 \<longrightarrow>
                  front_content (heap (elapse m t w') r) = front_content (heap w r)) \<and>
               front_content (heap (elapse m 500 w') r) =
                 (case cfg_setupFrontDiv m of
                    None \<Rightarrow> front_content (heap w r)
                  | Some f \<Rightarrow> f c (w'\<lparr>timers := []\<rparr>) r (front_content (heap w r))))) \<and>
         (let w' = snd (setCardVisible m c (Some True) None w) in
            side (heap w' r) = Some ''front'' \<and>
            front_content (heap w' r) =
              (case cfg_setupFrontDiv m of
                 None \<Rightarrow> front_content (heap w r)
               | Some f \<Rightarrow> f c (set_side r ''front'' w) r (front_content (heap w r))) \<and>
            back_content (heap w' r) = back_content (heap w r) \<and>
            timers w' = timers w) \<and>
         (\<forall>visible settings. \<not> flip_opt settings updateBack False \<longrightarrow>
            back_content (heap (snd (setCardVisible m c visible settings w)) r) = back_content (heap w r) \<and>
            (\<forall>d y z. (d, BackTask y z) \<in> set (timers (snd (setCardVisible m c visible settings w)))
                       \<longrightarrow> (d, BackTask y z) \<in> set (timers w)))"
proof -
  let ?down = "snd (setCardVisible m c (Some False) None w)"
  let ?up = "snd (setCardVisible m c (Some True) None w)"
  note eff = setCardVisible_document [OF assms]
  have down_heap: "heap ?down = (heap w)(r := (heap w r)\<lparr>side := Some ''back''\<rparr>)"
    and down_timers: "timers ?down = timers w @ [(500, FrontTask c r)]"
    by (simp_all add: eff displayed_default_down)
  have immediate: "side (heap ?down r) = Some ''back''"
      "front_content (heap ?down r) = front_content (heap w r)"
      "back_content (heap ?down r) = back_content (heap w r)"
    by (simp_all add: down_heap)
  have waiting: "front_content (heap (elapse m t ?down) r) = front_content (heap w r)"
    if "timers w = []" "t < 500" for t
    using that by (simp add: elapse_single_waiting [where d = 500 and k = "FrontTask c r"] down_timers down_heap)
  have fired: "front_content (heap (elapse m 500 ?down) r) =
                 (case cfg_setupFrontDiv m of
                    None \<Rightarrow> front_content (heap w r)
                  | Some f \<Rightarrow> f c (?down\<lparr>timers := []\<rparr>) r (front_content (heap w r)))"
    if "timers w = []"
    using that
    by (simp add: elapse_single_due [where d = 500 and k = "FrontTask c r"] down_timers down_heap
             split: option.split)
  have shown: "side (heap ?up r) = Some ''front''"
      "front_content (heap ?up r) =
              (case cfg_setupFrontDiv m of
                 None \<Rightarrow> front_content (heap w r)
               | Some f \<Rightarrow> f c (set_side r ''front'' w) r (front_content (heap w r)))"
      "back_content (heap ?up r) = back_content (heap w r)"
      "timers ?up = timers w"
    by (simp_all add: eff displayed_default_up split: option.split)
  have back_kept: "back_content (heap (snd (setCardVisible m c visible settings w)) r) = back_content (heap w r) \<and>
            (\<forall>d y z. (d, BackTask y z) \<in> set (timers (snd (setCardVisible m c visible settings w)))
                       \<longrightarrow> (d, BackTask y z) \<in> set (timers w))"
    if "\<not> flip_opt settings updateBack False" for visible settings
    using that by (simp add: eff displayed_back_untouched)
  show ?thesis
    unfolding Let_def using immediate down_timers waiting fired shown back_kept by blast
qed


theorem setCardVisible_default_options_witness:
  "getCardElement painting_manager card5 shown_world = Some 0 \<and>
   side (heap (snd (setCardVisible painting_manager card5 (Some False) None shown_world)) 0) = Some ''back'' \<and>
   timers (snd (setCardVisible painting_manager card5 (Some False) None shown_world)) = [(500, FrontTask card5 0)] \<and>
   front_content (heap (snd (setCardVisible painting_manager card5 (Some False) None shown_world)) 0) = [] \<and>
   front_content (heap (elapse painting_manager 499
      (snd (setCardVisible painting_manager card5 (Some False) None shown_world))) 0) = [] \<and>
   front_content (heap (elapse painting_manager 500
      (snd (setCardVisible painting_manager card5 (Some False) None shown_world))) 0) = ''type:undefined'' \<and>
   front_content (heap (snd (setCardVisible painting_manager card5 (Some True) None shown_world)) 0) = ''type:undefined'' \<and>
   back_content (heap (snd (setCardVisible painting_manager card5 (Some True) None shown_world)) 0) = []"
proof -
  have hook: "cfg_setupFrontDiv painting_manager = Some (\<lambda>c w r old. ''type:'' @ to_string (card_type c))"
    by (simp add: painting_manager_def)
  have ty: "to_string (card_type card5) = ''undefined''"
    by (simp add: card5_def)
  from setCardVisible_default_options [OF element_of_card5_painting]
  show ?thesis
    by (simp add: Let_def element_of_card5_painting shown_world_fields hook ty)
qed


text \<open>
  C10. For a card that has an element and is contained in no registered stock,
  \<open>setCardVisible\<close> with data replacement on (the default, or \<^verbatim>\<open>updateData: true\<close>) throws
  a \<^verbatim>\<open>TypeError\<close>: \<open>getCardStock\<close> finds no stock and \<^verbatim>\<open>getCards\<close> is called on the
  missing stock.
\<close>

theorem setCardVisible_without_stock_throws:
  assumes "getCardElement m c w = Some r"
      and "getCardStock m c w = None"
      and "flip_opt settings updateData True"
  shows "fst (setCardVisible m c visible settings w) = Some TypeError"
  using assms by (simp add: setCardVisible_present Let_def)

theorem setCardVisible_without_stock_throws_witness:
  "getCardElement default_manager card5 shown_world = Some 0 \<and>
   getCardStock default_manager card5 shown_world = None \<and>
   fst (setCardVisible default_manager card5 (Some False) None shown_world) = Some TypeError"
  using setCardVisible_without_stock_throws [of default_manager card5 shown_world 0 None "Some False"]
  by (simp add: element_of_card5_shown no_stock_shown flip_opt_def orElse_def)

section \<open>Hooks during creation\<close>

lemma created_mounted:
  "created m c v w =
     call_hook Back (cfg_setupBackDiv m) c (next_ref w)
       (call_hook Front (cfg_setupFrontDiv m) c (next_ref w)
         (call_hook Container (cfg_setupDiv m) c (next_ref w) (mounted m c v w)))"
  by (simp add: created_def)

lemma mounted_simps [simp]:
  "doc (mounted m c v w) = filter (\<lambda>x. x \<noteq> next_ref w) (doc w) @ [next_ref w]"
  "events (mounted m c v w) = events w @ [EvCreateElement (next_ref w), EvSetId (next_ref w) (getId m c),
      EvSetSide (next_ref w) (if orElse v True then ''front'' else ''back''), EvAppendChild (next_ref w)]"
  "div_content (heap (mounted m c v w) (next_ref w)) = []"
  "front_content (heap (mounted m c v w) (next_ref w)) = []"
  "back_content (heap (mounted m c v w) (next_ref w)) = []"
  "el_id (heap (mounted m c v w) (next_ref w)) = getId m c"
  by (simp_all add: mounted_def blank_element_def)

lemma element_of_card5_probing: "getCardElement probing_manager card5 empty_world = None"
  by (simp add: getCardElement_def getElementById_def empty_world_def)

lemma createCardElement_stages:
  assumes "getCardElement m c w = None"
  shows "(let r = next_ref w;
              u1 = mounted m c v w;
              u2 = call_hook Container (cfg_setupDiv m) c r u1;
              u3 = call_hook Front (cfg_setupFrontDiv m) c r u2;
              w' = snd (createCardElement m c v w)
          in fst (createCardElement m c v w) = Inr r \<and>
             isConnected u1 r \<and> isConnected u2 r \<and> isConnected u3 r \<and> \<not> isConnected w' r \<and>
             div_content (heap w' r) = (case cfg_setupDiv m of None \<Rightarrow> [] | Some f \<Rightarrow> f c u1 r []) \<and>
             front_content (heap w' r) = (case cfg_setupFrontDiv m of None \<Rightarrow> [] | Some f \<Rightarrow> f c u2 r []) \<and>
             back_content (heap w' r) = (case cfg_setupBackDiv m of None \<Rightarrow> [] | Some f \<Rightarrow> f c u3 r []) \<and>
             events w' = events u1
               @ (case cfg_setupDiv m of None \<Rightarrow> [] | Some f \<Rightarrow> [EvHook Container c r])
               @ (case cfg_setupFrontDiv m of None \<Rightarrow> [] | Some f \<Rightarrow> [EvHook Front c r])
               @ (case cfg_setupBackDiv m of None \<Rightarrow> [] | Some f \<Rightarrow> [EvHook Back c r])
               @ [EvRemoveChild r] \<and>
             events u1 = events w @ [EvCreateElement r, EvSetId r (getId m c),
               EvSetSide r (if orElse v True then ''front'' else ''back''), EvAppendChild r])"
  unfolding Let_def createCardElement_fresh [OF assms] created_mounted
  by (simp add: isConnected_def split: option.split)


text \<open>
  C4, as stated, fails: a hook that looks whether the element it is given is connected to
  the document finds it connected, for each of the three hooks.
\<close>

theorem createCardElement_hooks_counterexample:
  "fst (createCardElement probing_manager card5 None empty_world) = Inr 0 \<and>
   div_content (heap (snd (createCardElement probing_manager card5 None empty_world)) 0) = ''connected'' \<and>
   front_content (heap (snd (createCardElement probing_manager card5 None empty_world)) 0) = ''connected'' \<and>
   back_content (heap (snd (createCardElement probing_manager card5 None empty_world)) 0) = ''connected''"
proof -
  have fresh: "next_ref empty_world = 0" by (simp add: empty_world_def)
  have hooks: "cfg_setupDiv probing_manager = Some probe_hook"
      "cfg_setupFrontDiv probing_manager = Some probe_hook"
      "cfg_setupBackDiv probing_manager = Some probe_hook"
    by (simp_all add: probing_manager_def)
  from createCardElement_stages [OF element_of_card5_probing, of None]
  show ?thesis
    by (simp add: Let_def fresh hooks probe_hook_def)
qed


text \<open>
  C4, amended. \<open>createCardElement\<close> appends the new element to the document body, calls
  each supplied hook (\<^verbatim>\<open>setupDiv\<close>, \<^verbatim>\<open>setupFrontDiv\<close>, \<^verbatim>\<open>setupBackDiv\<close>, in this order)
  while the element is attached there, then removes the element from the body and returns
  it detached. The content of each part of the returned element is what its hook produced
  in the world of its call.
\<close>

theorem createCardElement_hooks_while_attached:
  assumes "getCardElement m c w = None"
  shows "(let r = next_ref w;
              u1 = mounted m c v w;
              u2 = call_hook Container (cfg_setupDiv m) c r u1;
              u3 = call_hook Front (cfg_setupFrontDiv m) c r u2;
              w' = snd (createCardElement m c v w)
          in fst (createCardElement m c v w) = Inr r \<and>
             isConnected u1 r \<and> isConnected u2 r \<and> isConnected u3 r \<and> \<not> isConnected w' r \<and>
             div_content (heap w' r) = (case cfg_setupDiv m of None \<Rightarrow> [] | Some f \<Rightarrow> f c u1 r []) \<and>
             front_content (heap w' r) = (case cfg_setupFrontDiv m of None \<Rightarrow> [] | Some f \<Rightarrow> f c u2 r []) \<and>
             back_content (heap w' r) = (case cfg_setupBackDiv m of None \<Rightarrow> [] | Some f \<Rightarrow> f c u3 r []) \<and>
             events w' = events u1
               @ (case cfg_setupDiv m of None \<Rightarrow> [] | Some f \<Rightarrow> [EvHook Container c r])
               @ (case cfg_setupFrontDiv m of None \<Rightarrow> [] | Some f \<Rightarrow> [EvHook Front c r])
               @ (case cfg_setupBackDiv m of None \<Rightarrow> [] | Some f \<Rightarrow> [EvHook Back c r])
               @ [EvRemoveChild r] \<and>
             events u1 = events w @ [EvCreateElement r, EvSetId r (getId m c),
               EvSetSide r (if orElse v True then ''front'' else ''back''), EvAppendChild r])"
  using assms by (rule createCardElement_stages)


theorem createCardElement_hooks_while_attached_witness:
  "getCardElement probing_manager card5 empty_world = None \<and>
   fst (createCardElement probing_manager card5 None empty_world) = Inr 0 \<and>
   isConnected (mounted probing_manager card5 None empty_world) 0 \<and>
   \<not> isConnected (snd (createCardElement probing_manager card5 None empty_world)) 0 \<and>
   events (snd (createCardElement probing_manager card5 None empty_world)) =
     [EvCreateElement 0, EvSetId 0 ''card-5'', EvSetSide 0 ''front'', EvAppendChild 0,
      EvHook Container card5 0, EvHook Front card5 0, EvHook Back card5 0, EvRemoveChild 0]"
proof -
  have fresh: "next_ref empty_world = 0" "events empty_world = []" by (simp_all add: empty_world_def)
  have hooks: "cfg_setupDiv probing_manager = Some probe_hook"
      "cfg_setupFrontDiv probing_manager = Some probe_hook"
      "cfg_setupBackDiv probing_manager = Some probe_hook"
    by (simp_all add: probing_manager_def)
  have ident: "getId probing_manager card5 = ''card-5''"
    by (simp add: getId_def orElse_def probing_manager_def default_manager_def card5_def string_of_int_5)
  from createCardElement_hooks_while_attached [OF element_of_card5_probing, of None]
  show ?thesis
    by (simp add: Let_def element_of_card5_probing fresh hooks ident orElse_def)
qed


section \<open>Removing a card\<close>

lemma removeCard_present:
  "getCardElement m c w = Some r \<Longrightarrow>
   removeCard m c w =
     remove_el r (set_id r (''deleted'' @ getId m c)
       (case getCardStock m c w of None \<Rightarrow> w | Some s \<Rightarrow> cardRemoved m s c w))"
  by (simp add: removeCard_def getCardElement_def Let_def)

lemma removeCard_missing: "getCardElement m c w = None \<Longrightarrow> removeCard m c w = w"
  by (simp add: removeCard_def getCardElement_def Let_def)

lemma element_of_card5_stocked: "getCardElement default_manager card5 stocked_world = Some 0"
  by (simp add: getCardElement_def getElementById_def getId_card5 stocked_world_def shown_world_def empty_world_def)

lemma stock_of_card5_stocked: "getCardStock default_manager card5 stocked_world = Some 0"
  by (simp add: getCardStock_def contains_def stocked_world_def)

lemma unique_card5_shown: "\<forall>x \<in> set (doc shown_world). el_id (heap shown_world x) = getId default_manager card5 \<longrightarrow> x = 0"
  by (simp add: shown_world_def)


text \<open>
  C5. When the card's element exists, \<open>removeCard\<close> first calls \<^verbatim>\<open>cardRemoved\<close> of the
  stock that contains the card (when there is one), then renames the element to
  \<^verbatim>\<open>deleted\<close> followed by the id, then detaches it: the trace grows by exactly these
  events in this order. When the element does not exist, the world (trace included) is
  returned as it was, so no stock is notified.
\<close>

theorem removeCard_notifies_then_detaches:
  "(\<forall>r. getCardElement m c w = Some r \<longrightarrow>
      (let w' = removeCard m c w in
         events w' = events w
           @ (case getCardStock m c w of None \<Rightarrow> [] | Some s \<Rightarrow> [EvCardRemoved s c])
           @ [EvSetId r (''deleted'' @ getId m c), EvRemove r] \<and>
         el_id (heap w' r) = ''deleted'' @ getId m c \<and>
         \<not> isConnected w' r)) \<and>
   (getCardElement m c w = None \<longrightarrow> removeCard m c w = w)"
proof (intro conjI allI impI)
  fix r assume el: "getCardElement m c w = Some r"
  show "let w' = removeCard m c w in
         events w' = events w
           @ (case getCardStock m c w of None \<Rightarrow> [] | Some s \<Rightarrow> [EvCardRemoved s c])
           @ [EvSetId r (''deleted'' @ getId m c), EvRemove r] \<and>
         el_id (heap w' r) = ''deleted'' @ getId m c \<and>
         \<not> isConnected w' r"
    by (cases "getCardStock m c w") (simp_all add: removeCard_present [OF el] isConnected_def)
next
  assume "getCardElement m c w = None"
  then show "removeCard m c w = w" by (rule removeCard_missing)
qed

theorem removeCard_notifies_then_detaches_witness:
  "getCardElement default_manager card5 stocked_world = Some 0 \<and>
   events (removeCard default_manager card5 stocked_world) =
     [EvCardRemoved 0 card5, EvSetId 0 ''deletedcard-5'', EvRemove 0] \<and>
   \<not> isConnected (removeCard default_manager card5 stocked_world) 0 \<and>
   removeCard default_manager card5 empty_world = empty_world"
proof -
  have ev: "events stocked_world = []"
    by (simp add: stocked_world_def shown_world_def empty_world_def)
  from removeCard_notifies_then_detaches [of default_manager card5 stocked_world]
       removeCard_notifies_then_detaches [of default_manager card5 empty_world]
  show ?thesis
    by (simp add: Let_def element_of_card5_stocked stock_of_card5_stocked element_of_card5_empty
          getId_card5 ev)
qed



lemma element_of_card5_twin: "getCardElement default_manager card5 twin_world = Some 0"
  by (simp add: getCardElement_def getElementById_def getId_card5 twin_world_def empty_world_def)

lemma no_stock_twin: "getCardStock default_manager card5 twin_world = None"
  by (simp add: getCardStock_def twin_world_def empty_world_def)

lemma doc_twin: "doc twin_world = [0, 1]"
  by (simp add: twin_world_def)

lemma second_twin: "el_id (heap twin_world 1) = ''card-5''"
  by (simp add: twin_world_def)

lemma doc_removeCard_twin: "doc (removeCard default_manager card5 twin_world) = [1]"
  by (simp add: removeCard_present [OF element_of_card5_twin] no_stock_twin doc_twin)

lemma second_removeCard_twin: "el_id (heap (removeCard default_manager card5 twin_world) 1) = ''card-5''"
  using second_twin
  by (simp add: removeCard_present [OF element_of_card5_twin] no_stock_twin)

lemma element_of_card5_twin_removed:
  "getCardElement default_manager card5 (removeCard default_manager card5 twin_world) = Some 1"
  using second_removeCard_twin by (simp add: getCardElement_def getElementById_def getId_card5 doc_removeCard_twin)

text \<open>
  C7, as stated, fails: on a page where two elements carry the id \<^verbatim>\<open>card-5\<close>,
  \<open>removeCard\<close> takes the first one away; \<open>getCardElement\<close> then finds the second,
  \<open>createCardElement\<close> throws the duplicate-card error, and a second \<open>removeCard\<close> changes
  the world again.
\<close>

theorem removeCard_twin_counterexample:
  "getCardElement default_manager card5 twin_world = Some 0 \<and>
   getCardElement default_manager card5 (removeCard default_manager card5 twin_world) = Some 1 \<and>
   createCardElement default_manager card5 None (removeCard default_manager card5 twin_world) =
     (Inl (DuplicateCard card5), removeCard default_manager card5 twin_world) \<and>
   removeCard default_manager card5 (removeCard default_manager card5 twin_world) \<noteq>
     removeCard default_manager card5 twin_world"
proof -
  let ?w = "removeCard default_manager card5 twin_world"
  have "doc (removeCard default_manager card5 ?w) = []"
    by (simp add: removeCard_present [OF element_of_card5_twin_removed] doc_removeCard_twin split: option.split)
  then have "removeCard default_manager card5 ?w \<noteq> ?w"
    using doc_removeCard_twin by auto
  then show ?thesis
    by (simp add: element_of_card5_twin element_of_card5_twin_removed
          createCardElement_existing [OF element_of_card5_twin_removed])
qed

text \<open>
  C7, amended. When the card's element exists and no other element of the document carries
  the card's id, removing the card frees the identity: \<open>getCardElement\<close> finds nothing
  afterwards, \<open>createCardElement\<close> for the same card succeeds, and removing the card a
  second time changes nothing.
\<close>

theorem removeCard_frees_identity:
  assumes "getCardElement m c w = Some r"
      and "\<forall>x \<in> set (doc w). el_id (heap w x) = getId m c \<longrightarrow> x = r"
  shows "getCardElement m c (removeCard m c w) = None \<and>
         (\<exists>w'. createCardElement m c v (removeCard m c w) = (Inr (next_ref w), w')) \<and>
         removeCard m c (removeCard m c w) = removeCard m c w"
proof -
  let ?w = "removeCard m c w"
  have gone: "getCardElement m c ?w = None"
    using assms(2)
    by (cases "getCardStock m c w")
       (auto simp: removeCard_present [OF assms(1)] getCardElement_def getElementById_def find_None_iff)
  have nr: "next_ref ?w = next_ref w"
    by (cases "getCardStock m c w") (simp_all add: removeCard_present [OF assms(1)])
  from createCardElement_fresh [OF gone, of v] nr
  have "\<exists>w'. createCardElement m c v ?w = (Inr (next_ref w), w')" by simp
  moreover have "removeCard m c ?w = ?w" using gone by (rule removeCard_missing)
  ultimately show ?thesis using gone by simp
qed

theorem removeCard_frees_identity_witness:
  "getCardElement default_manager card5 shown_world = Some 0 \<and>
   getCardElement default_manager card5 (removeCard default_manager card5 shown_world) = None \<and>
   (\<exists>w'. createCardElement default_manager card5 None (removeCard default_manager card5 shown_world) = (Inr 1, w')) \<and>
   removeCard default_manager card5 (removeCard default_manager card5 shown_world) =
     removeCard default_manager card5 shown_world"
proof -
  have nr: "next_ref shown_world = 1" by (simp add: shown_world_def)
  from removeCard_frees_identity [OF element_of_card5_shown unique_card5_shown, of None]
  show ?thesis by (simp add: element_of_card5_shown nr)
qed


section \<open>Replacing the card data\<close>

lemma findIndex_lower: "- 1 \<le> findIndex P xs"
  by (induction xs) (simp_all add: Let_def)

lemma findIndex_absent: "findIndex P xs = - 1 \<longleftrightarrow> \<not> list_ex P xs"
proof (induction xs)
  case Nil
  show ?case by simp
next
  case (Cons x xs)
  have "findIndex P xs + 1 \<noteq> - 1"
    using findIndex_lower [of P xs] by arith
  with Cons show ?case by (simp add: Let_def)
qed

lemma findIndex_first:
  "list_ex P xs \<Longrightarrow>
     nat (findIndex P xs) < length xs \<and> P (xs ! nat (findIndex P xs)) \<and>
     (\<forall>j < nat (findIndex P xs). \<not> P (xs ! j))"
proof (induction xs)
  case Nil
  then show ?case by simp
next
  case (Cons x xs)
  show ?case
  proof (cases "P x")
    case True
    then show ?thesis by simp
  next
    case False
    with Cons.prems have ex: "list_ex P xs" by simp
    then have found: "findIndex P xs \<noteq> - 1" by (simp add: findIndex_absent)
    with findIndex_lower [of P xs] have nonneg: "0 \<le> findIndex P xs" by arith
    then have suc: "nat (findIndex P xs + 1) = Suc (nat (findIndex P xs))" by arith
    from Cons.IH [OF ex] False found show ?thesis
      by (auto simp: Let_def suc less_Suc_eq_0_disj)
  qed
qed

lemma splice1_in_range: "i < length xs \<Longrightarrow> splice1 i x xs = xs[i := x]"
  by (simp add: splice1_def upd_conv_take_nth_drop)

lemma getCardStock_contains:
  "getCardStock m c w = Some s \<Longrightarrow> contains m (stock_store w s) c"
  by (auto simp: getCardStock_def find_Some_iff)

lemma revealed5_in_stock: "getCardStock default_manager revealed5 unseen_world = Some 0"
  by (simp add: getCardStock_def contains_def unseen_world_def getId_def orElse_def
        default_manager_def revealed5_def card5_def)

lemma element_of_revealed5_unseen: "getCardElement default_manager revealed5 unseen_world = None"
  by (simp add: getCardElement_def getElementById_def unseen_world_def empty_world_def)

lemma revealed5_in_stocked: "getCardStock default_manager revealed5 stocked_world = Some 0"
  by (simp add: getCardStock_def contains_def stocked_world_def getId_def orElse_def
        default_manager_def revealed5_def card5_def)

lemma element_of_revealed5_stocked: "getCardElement default_manager revealed5 stocked_world = Some 0"
  by (simp add: getCardElement_def getElementById_def getId_def orElse_def default_manager_def
        revealed5_def string_of_int_5 stocked_world_def shown_world_def empty_world_def)


text \<open>
  C6, as stated, fails: a card contained in a registered stock but without an element in
  the document is not replaced, since \<open>setCardVisible\<close> returns at its first guard.
\<close>

theorem setCardVisible_replacement_counterexample:
  "getCardStock default_manager revealed5 unseen_world = Some 0 \<and>
   cards (stock_store unseen_world 0) = [card5] \<and>
   setCardVisible default_manager revealed5 (Some True)
       (Some (no_flip_settings\<lparr>updateData := Some True\<rparr>)) unseen_world = (None, unseen_world) \<and>
   cards (stock_store unseen_world 0) \<noteq> [revealed5]"
  by (simp add: revealed5_in_stock setCardVisible_missing [OF element_of_revealed5_unseen])
     (simp add: unseen_world_def card5_def revealed5_def)


text \<open>
  C6, amended. For a card that has an element and is contained in a registered stock,
  \<open>setCardVisible\<close> with data replacement on returns normally and replaces, in the first
  registered stock containing the card, the first entry with the same id by the new card
  value, at the same index; the length of the sequence, its other entries, the selection
  and every other stock are unchanged.
\<close>

theorem setCardVisible_replaces_in_place:
  assumes "getCardElement m c w = Some r"
      and "getCardStock m c w = Some s"
      and "flip_opt settings updateData True"
  shows "(let old = cards (stock_store w s);
              i = nat (findIndex (\<lambda>x. getId m x = getId m c) old);
              w' = snd (setCardVisible m c visible settings w)
          in fst (setCardVisible m c visible settings w) = None \<and>
             i < length old \<and> getId m (old ! i) = getId m c \<and>
             (\<forall>j < i. getId m (old ! j) \<noteq> getId m c) \<and>
             cards (stock_store w' s) = old[i := c] \<and>
             length (cards (stock_store w' s)) = length old \<and>
             cards (stock_store w' s) ! i = c \<and>
             (\<forall>j < length old. j \<noteq> i \<longrightarrow> cards (stock_store w' s) ! j = old ! j) \<and>
             selectedCards (stock_store w' s) = selectedCards (stock_store w s) \<and>
             (\<forall>s'. s' \<noteq> s \<longrightarrow> stock_store w' s' = stock_store w s') \<and>
             stocks w' = stocks w)"
proof -
  let ?P = "\<lambda>x. getId m x = getId m c"
  let ?old = "cards (stock_store w s)"
  have ex: "list_ex ?P ?old"
    using getCardStock_contains [OF assms(2)] by (simp add: contains_def)
  then have found: "findIndex ?P ?old \<noteq> - 1"
    by (simp add: findIndex_absent)
  note first = findIndex_first [OF ex]
  show ?thesis
    using first found assms(2,3)
    by (simp add: setCardVisible_present [OF assms(1)] Let_def splice1_in_range)
qed

theorem setCardVisible_replaces_in_place_witness:
  "getCardElement default_manager revealed5 stocked_world = Some 0 \<and>
   getCardStock default_manager revealed5 stocked_world = Some 0 \<and>
   cards (stock_store stocked_world 0) = [card5] \<and>
   fst (setCardVisible default_manager revealed5 (Some True) None stocked_world) = None \<and>
   cards (stock_store (snd (setCardVisible default_manager revealed5 (Some True) None stocked_world)) 0)
     = [revealed5]"
proof -
  have old: "cards (stock_store stocked_world 0) = [card5]"
    by (simp add: stocked_world_def)
  have ids: "getId default_manager card5 = getId default_manager revealed5"
    by (simp add: getId_def default_manager_def card5_def revealed5_def)
  from setCardVisible_replaces_in_place [OF element_of_revealed5_stocked revealed5_in_stocked, of None "Some True"]
  show ?thesis
    by (simp add: Let_def element_of_revealed5_stocked revealed5_in_stocked old ids)
qed

end
